theory Spec2Isabelle
  imports Complex_Main
begin

section \<open>Values, strings and dictionaries of the service\<close>

text \<open>
  The service (\<^verbatim>\<open>market_data_service.py\<close>) passes decoded JSON around as values of
  type \<^verbatim>\<open>Any\<close>. They are modelled by one datatype. No function of the service computes
  with a number, so a float is kept as the real number it denotes.
\<close>

datatype pyval =
    PyNone
  | PyBool bool
  | PyInt int
  | PyFloat real
  | PyStr string
  | PyList "pyval list"
  | PyDict "(string \<times> pyval) list"

text \<open>
  A Python \<^verbatim>\<open>dict\<close> with string keys is an association list in insertion order.
  A well-formed dictionary has pairwise distinct keys (\<open>wf_dict\<close>).
\<close>

type_synonym 'v dict = "(string \<times> 'v) list"

definition keys :: "'v dict \<Rightarrow> string list" where
  "keys d = map fst d"

definition wf_dict :: "'v dict \<Rightarrow> bool" where
  "wf_dict d = distinct (keys d)"

text \<open>\<^verbatim>\<open>d.get(k)\<close> on a dictionary whose values are not themselves \<^verbatim>\<open>Any\<close>:
  \<open>None\<close> is Python's \<^verbatim>\<open>None\<close>.\<close>

definition dict_get :: "'v dict \<Rightarrow> string \<Rightarrow> 'v option" where
  "dict_get d k = map_of d k"

text \<open>\<^verbatim>\<open>d.get(k)\<close> and \<^verbatim>\<open>d.get(k, default)\<close> on a dictionary of \<^verbatim>\<open>Any\<close> values.\<close>

definition py_get_default :: "pyval dict \<Rightarrow> string \<Rightarrow> pyval \<Rightarrow> pyval" where
  "py_get_default d k dflt = (case map_of d k of Some v \<Rightarrow> v | None \<Rightarrow> dflt)"

definition py_get :: "pyval dict \<Rightarrow> string \<Rightarrow> pyval" where
  "py_get d k = py_get_default d k PyNone"

text \<open>\<^verbatim>\<open>d[k] = v\<close>: an existing key keeps its position, a new key goes to the end.\<close>

fun dict_set :: "'v dict \<Rightarrow> string \<Rightarrow> 'v \<Rightarrow> 'v dict" where
  "dict_set [] k v = [(k, v)]"
| "dict_set ((k', v') # d) k v =
     (if k' = k then (k, v) # d else (k', v') # dict_set d k v)"

text \<open>\<^verbatim>\<open>s.endswith(suffix)\<close>.\<close>

definition endswith :: "string \<Rightarrow> string \<Rightarrow> bool" where
  "endswith s suffix =
     (length suffix \<le> length s \<and> drop (length s - length suffix) s = suffix)"

text \<open>
  \<^verbatim>\<open>s.replace(old, new)\<close>: every occurrence of \<open>old\<close>, found from the left and not
  overlapping, is replaced. For an empty \<open>old\<close> Python puts \<open>new\<close> before every
  character and at the end.
\<close>

function str_replace_ne :: "string \<Rightarrow> string \<Rightarrow> string \<Rightarrow> string" where
  "str_replace_ne [] old new = []"
| "str_replace_ne (c # cs) old new =
     (if old \<noteq> [] \<and> take (length old) (c # cs) = old
      then new @ str_replace_ne (drop (length old) (c # cs)) old new
      else c # str_replace_ne cs old new)"
  by pat_completeness auto
termination
  by (relation "measure (\<lambda>(s, old, new). length s)") auto

definition str_replace :: "string \<Rightarrow> string \<Rightarrow> string \<Rightarrow> string" where
  "str_replace s old new =
     (if old = [] then new @ concat (map (\<lambda>c. c # new) s)
      else str_replace_ne s old new)"

section \<open>The aggregator\<close>

text \<open>
  \<^verbatim>\<open>aggregate_data(coingecko_data, bybit_data)\<close>. Both arguments are dictionaries whose
  values are dictionaries: \<open>fetch_coingecko_data\<close> builds four-key dictionaries and
  \<open>fetch_bybit_spot_tickers\<close> keeps the items it could index with \<^verbatim>\<open>item['symbol']\<close>.
  A test \<^verbatim>\<open>if cg_item\<close> holds for a dictionary that is present and not empty.
\<close>

type_synonym instrument_record = "pyval dict"

text \<open>\<^verbatim>\<open>X if cg_item else Y\<close>, where \<open>X\<close> reads the dictionary \<open>cg_item\<close>.\<close>

definition if_item :: "pyval dict option \<Rightarrow> (pyval dict \<Rightarrow> pyval) \<Rightarrow> pyval \<Rightarrow> pyval" where
  "if_item cg_item x y =
     (case cg_item of None \<Rightarrow> y | Some d \<Rightarrow> if d \<noteq> [] then x d else y)"

text \<open>The dictionary literal stored under \<^verbatim>\<open>final_data[symbol]\<close>.\<close>

definition build_record ::
  "pyval dict option \<Rightarrow> string \<Rightarrow> pyval dict \<Rightarrow> instrument_record" where
  "build_record cg_item base_coin bb_item =
     [(''coinName'',
         if_item cg_item (\<lambda>d. py_get_default d ''coinName'' (PyStr base_coin)) (PyStr base_coin)),
      (''currentPrice'', py_get bb_item ''lastPrice''),
      (''priceChange24hPcnt'', py_get bb_item ''price24hPcnt''),
      (''volume24h'', py_get bb_item ''volume24h''),
      (''coinLogoURL'', if_item cg_item (\<lambda>d. py_get d ''coinLogoURL'') PyNone),
      (''marketCapUSD'', if_item cg_item (\<lambda>d. py_get d ''marketCapUSD'') PyNone),
      (''marketCapRank'', if_item cg_item (\<lambda>d. py_get d ''marketCapRank'') PyNone)]"

text \<open>The \<^verbatim>\<open>for symbol, bb_item in bybit_data.items()\<close> loop, with \<open>final_data\<close>
  as its accumulator.\<close>

fun aggregate_loop ::
  "pyval dict dict \<Rightarrow> pyval dict dict \<Rightarrow> instrument_record dict \<Rightarrow> instrument_record dict"
where
  "aggregate_loop coingecko_data [] final_data = final_data"
| "aggregate_loop coingecko_data ((symbol, bb_item) # rest) final_data =
     (if \<not> endswith symbol ''USDT'' then aggregate_loop coingecko_data rest final_data
      else
        let base_coin = str_replace symbol ''USDT'' '''';
            cg_item = dict_get coingecko_data base_coin
        in aggregate_loop coingecko_data rest
             (dict_set final_data symbol (build_record cg_item base_coin bb_item)))"

definition aggregate_data ::
  "pyval dict dict \<Rightarrow> pyval dict dict \<Rightarrow> instrument_record dict" where
  "aggregate_data coingecko_data bybit_data = aggregate_loop coingecko_data bybit_data []"

section \<open>The cache, the clock and the upstream services\<close>

text \<open>
  The global \<^verbatim>\<open>data_cache\<close> is a record; \<open>data_cache\<close> below is its value at process
  start. \<^verbatim>\<open>time.time()\<close> reads the clock of the world. The timestamps are kept as the
  real numbers they denote.
\<close>

record cache =
  last_updated :: real
  data :: "instrument_record dict"

definition CACHE_DURATION_SECONDS :: real where
  "CACHE_DURATION_SECONDS = 300"

definition data_cache :: cache where
  "data_cache = \<lparr>last_updated = 0, data = []\<rparr>"

text \<open>
  The HTTP exchange with a provider is outside the program. A call is recorded in the
  world, in the order made; what the fetcher returns (its decoded mapping, or the empty
  one that stands for every failure) is given by the environment of the request, together
  with the time that passes while the handler awaits the two fetches.
\<close>

datatype upstream_call =
    CoinGeckoMarkets
  | BybitTickers
  | BybitKline "pyval dict"

record world =
  w_cache :: cache
  w_clock :: real
  w_calls :: "upstream_call list"

record upstream =
  coingecko_result :: "pyval dict dict"
  bybit_result :: "pyval dict dict"
  fetch_duration :: real

datatype http_exception = HTTPException (status_code: nat) (detail: string)

definition fetch_coingecko_data :: "upstream \<Rightarrow> world \<Rightarrow> pyval dict dict \<times> world" where
  "fetch_coingecko_data up w =
     (coingecko_result up, w\<lparr>w_calls := w_calls w @ [CoinGeckoMarkets]\<rparr>)"

definition fetch_bybit_spot_tickers :: "upstream \<Rightarrow> world \<Rightarrow> pyval dict dict \<times> world" where
  "fetch_bybit_spot_tickers up w =
     (bybit_result up, w\<lparr>w_calls := w_calls w @ [BybitTickers]\<rparr>)"

text \<open>\<^verbatim>\<open>await asyncio.gather(fetch_coingecko_data(client), fetch_bybit_spot_tickers(client))\<close>:
  both fetches are made, and the handler resumes when both have returned.\<close>

definition gather_fetches ::
  "upstream \<Rightarrow> world \<Rightarrow> (pyval dict dict \<times> pyval dict dict) \<times> world" where
  "gather_fetches up w =
     (let (coingecko_data, w1) = fetch_coingecko_data up w;
          (bybit_data, w2) = fetch_bybit_spot_tickers up w1
      in ((coingecko_data, bybit_data), w2\<lparr>w_clock := w_clock w2 + fetch_duration up\<rparr>))"

section \<open>The aggregated-data endpoint\<close>

text \<open>
  \<^verbatim>\<open>get_cached_aggregated_investment_data()\<close>, one request run from entry to return.
  \<open>Inl\<close> is the raised \<^verbatim>\<open>HTTPException\<close>, \<open>Inr\<close> the returned mapping.
\<close>

definition cache_check :: "real \<Rightarrow> cache \<Rightarrow> bool" where
  "cache_check current_time c =
     (current_time - last_updated c < CACHE_DURATION_SECONDS \<and> data c \<noteq> [])"

definition get_cached_aggregated_investment_data ::
  "upstream \<Rightarrow> world \<Rightarrow> (http_exception + instrument_record dict) \<times> world" where
  "get_cached_aggregated_investment_data up w =
     (let current_time = w_clock w in
      if cache_check current_time (w_cache w) then (Inr (data (w_cache w)), w)
      else
        let ((coingecko_data, bybit_data), w1) = gather_fetches up w;
            final_data = aggregate_data coingecko_data bybit_data
        in
        if final_data \<noteq> [] then
          (Inr final_data,
           w1\<lparr>w_cache := (w_cache w1)\<lparr>data := final_data, last_updated := current_time\<rparr>\<rparr>)
        else if data (w_cache w1) \<noteq> [] then (Inr (data (w_cache w1)), w1)
        else
          (Inl (HTTPException 503
                  ''Could not fetch data from external APIs and cache is empty.''),
           w1))"

section \<open>The klines endpoint\<close>

text \<open>
  An optional integer parameter is \<open>None\<close> when absent; \<^verbatim>\<open>if start_time:\<close> holds for
  a value that is present and not zero.
\<close>

text \<open>\<^verbatim>\<open>if x: params[k] = x\<close>\<close>

definition set_if ::
  "int option \<Rightarrow> string \<Rightarrow> pyval dict \<Rightarrow> pyval dict" where
  "set_if x k params =
     (case x of None \<Rightarrow> params
      | Some n \<Rightarrow> if n \<noteq> 0 then dict_set params k (PyInt n) else params)"

text \<open>The query parameters \<^verbatim>\<open>fetch_bybit_klines\<close> sends.\<close>

definition kline_params ::
  "string \<Rightarrow> string \<Rightarrow> int option \<Rightarrow> int option \<Rightarrow> int \<Rightarrow> pyval dict" where
  "kline_params symbol interval start_time end_time limit =
     (let params = [(''category'', PyStr ''spot''),
                    (''symbol'', PyStr symbol),
                    (''interval'', PyStr interval),
                    (''limit'', PyInt limit)];
          params = set_if start_time ''start'' params;
          params = set_if end_time ''end'' params
      in params)"

text \<open>
  \<^verbatim>\<open>fetch_bybit_klines\<close>: the request is made with these parameters; the environment
  \<open>kline_result\<close> gives what the \<^verbatim>\<open>try\<close> block yields for them, the candle list or the
  empty list of every failure.
\<close>

type_synonym kline_upstream = "pyval dict \<Rightarrow> string list list"

definition fetch_bybit_klines ::
  "kline_upstream \<Rightarrow> string \<Rightarrow> string \<Rightarrow> int option \<Rightarrow> int option \<Rightarrow> int \<Rightarrow> world
     \<Rightarrow> string list list \<times> world" where
  "fetch_bybit_klines kline_result symbol interval start_time end_time limit w =
     (let params = kline_params symbol interval start_time end_time limit
      in (kline_result params, w\<lparr>w_calls := w_calls w @ [BybitKline params]\<rparr>))"




section \<open>Notions of the specification\<close>


text \<open>
  The base symbol as the specification describes it: the symbol without its last four
  characters, the quote suffix.
\<close>

definition strip_quote_suffix :: "string \<Rightarrow> string" where
  "strip_quote_suffix symbol = take (length symbol - length ''USDT'') symbol"

text \<open>\<^verbatim>\<open>old in s\<close>: the string \<open>old\<close> occurs in \<open>s\<close> at some position.\<close>

fun occurs :: "string \<Rightarrow> string \<Rightarrow> bool" where
  "occurs old [] = (old = [])"
| "occurs old (c # cs) = (take (length old) (c # cs) = old \<or> occurs old cs)"

section \<open>Facts about dictionaries and strings\<close>

lemma keys_dict_set: "set (keys (dict_set d k v)) = insert k (set (keys d))"
proof (induction d)
  case Nil
  show ?case by (simp add: keys_def)
next
  case (Cons p d)
  obtain k' v' where p: "p = (k', v')" by (cases p)
  show ?case
  proof (cases "k' = k")
    case True
    with p show ?thesis by (simp add: keys_def)
  next
    case False
    with p Cons show ?thesis by (simp add: keys_def insert_commute)
  qed
qed

lemma dict_get_dict_set:
  "dict_get (dict_set d k v) k' = (if k' = k then Some v else dict_get d k')"
  by (induction d) (auto simp: dict_get_def)

lemma wf_dict_set: "wf_dict d \<Longrightarrow> wf_dict (dict_set d k v)"
proof (induction d)
  case Nil
  then show ?case by (simp add: wf_dict_def keys_def)
next
  case (Cons p d)
  obtain k' v' where p: "p = (k', v')" by (cases p)
  have "set (keys (dict_set d k v)) = insert k (set (keys d))"
    by (rule keys_dict_set)
  with Cons p show ?case
    by (auto simp: wf_dict_def keys_def)
qed

text \<open>
  Where \<^verbatim>\<open>USDT\<close> occurs in a symbol only as its suffix, replacing every occurrence
  and cutting the suffix give the same base symbol.
\<close>

lemma no_overlap:
  "\<not> occurs ''USDT'' (c # cs) \<Longrightarrow>
     take (length ''USDT'') ((c # cs) @ ''USDT'') \<noteq> ''USDT''"
proof (cases cs)
  case Nil
  then show ?thesis by simp
next
  case (Cons a as)
  note c1 = this
  assume no: "\<not> occurs ''USDT'' (c # cs)"
  show ?thesis
  proof (cases as)
    case Nil
    with c1 show ?thesis by simp
  next
    case (Cons b bs)
    note c2 = this
    show ?thesis
    proof (cases bs)
      case Nil
      with c1 c2 show ?thesis by simp
    next
      case (Cons d ds)
      with c1 c2 no show ?thesis by simp
    qed
  qed
qed

lemma replace_strips:
  "\<not> occurs ''USDT'' base \<Longrightarrow> str_replace_ne (base @ ''USDT'') ''USDT'' '''' = base"
proof (induction base)
  case Nil
  show ?case by simp
next
  case (Cons c cs)
  from Cons.prems have rest: "\<not> occurs ''USDT'' cs" by simp
  from no_overlap[OF Cons.prems]
  have "str_replace_ne ((c # cs) @ ''USDT'') ''USDT'' ''''
          = c # str_replace_ne (cs @ ''USDT'') ''USDT'' ''''"
    by (simp only: append_Cons str_replace_ne.simps if_False simp_thms)
  with Cons.IH[OF rest] show ?case by simp
qed

lemma endswith_split: "endswith s suf \<Longrightarrow> s = take (length s - length suf) s @ suf"
  by (metis append_take_drop_id endswith_def)

lemma replace_is_strip:
  assumes "endswith symbol ''USDT''" and "\<not> occurs ''USDT'' (strip_quote_suffix symbol)"
  shows "str_replace symbol ''USDT'' '''' = strip_quote_suffix symbol"
proof -
  from endswith_split[OF assms(1)]
  have split: "symbol = strip_quote_suffix symbol @ ''USDT''"
    by (simp add: strip_quote_suffix_def)
  have "str_replace symbol ''USDT'' '''' = str_replace_ne symbol ''USDT'' ''''"
    by (simp add: str_replace_def)
  also have "\<dots> = str_replace_ne (strip_quote_suffix symbol @ ''USDT'') ''USDT'' ''''"
    using split by simp
  also have "\<dots> = strip_quote_suffix symbol"
    by (rule replace_strips[OF assms(2)])
  finally show ?thesis .
qed

section \<open>Facts about the aggregation loop\<close>

lemma keys_aggregate_loop:
  "set (keys (aggregate_loop cg xs acc)) =
     set (keys acc) \<union> {k \<in> set (keys xs). endswith k ''USDT''}"
proof (induction xs arbitrary: acc)
  case Nil
  show ?case by (simp add: keys_def)
next
  case (Cons p xs)
  obtain symbol bb_item where p: "p = (symbol, bb_item)" by (cases p)
  show ?case
  proof (cases "endswith symbol ''USDT''")
    case True
    have "keys (p # xs) = symbol # keys xs" by (simp add: p keys_def)
    with True p Cons[of "dict_set acc symbol
          (build_record (dict_get cg (str_replace symbol ''USDT'' '''')) (str_replace symbol ''USDT'' '''') bb_item)"]
    show ?thesis by (auto simp: Let_def keys_dict_set)
  next
    case False
    have "keys (p # xs) = symbol # keys xs" by (simp add: p keys_def)
    with False p Cons[of acc] show ?thesis by auto
  qed
qed

lemma aggregate_loop_other:
  "symbol \<notin> set (keys xs) \<Longrightarrow>
     dict_get (aggregate_loop cg xs acc) symbol = dict_get acc symbol"
proof (induction xs arbitrary: acc)
  case Nil
  show ?case by simp
next
  case (Cons p xs)
  obtain k item where p: "p = (k, item)" by (cases p)
  from Cons.prems p have ne: "symbol \<noteq> k" and rest: "symbol \<notin> set (keys xs)"
    by (auto simp: keys_def)
  show ?case using Cons.IH[OF rest] ne p
    by (simp add: Let_def dict_get_dict_set)
qed

lemma aggregate_loop_entry:
  assumes "wf_dict xs" and "(symbol, bb_item) \<in> set xs" and "endswith symbol ''USDT''"
  shows "dict_get (aggregate_loop cg xs acc) symbol =
           Some (build_record (dict_get cg (str_replace symbol ''USDT'' ''''))
                   (str_replace symbol ''USDT'' '''') bb_item)"
  using assms
proof (induction xs arbitrary: acc)
  case Nil
  then show ?case by simp
next
  case (Cons p xs)
  obtain k item where p: "p = (k, item)" by (cases p)
  from Cons.prems(1) p have k_new: "k \<notin> set (keys xs)" and wf: "wf_dict xs"
    by (auto simp: wf_dict_def keys_def)
  show ?case
  proof (cases "(symbol, bb_item) = p")
    case True
    with p have eq: "k = symbol" "item = bb_item" by auto
    from k_new eq have "symbol \<notin> set (keys xs)" by simp
    from aggregate_loop_other[OF this] p eq Cons.prems(3)
    show ?thesis by (simp add: Let_def dict_get_dict_set)
  next
    case False
    with Cons.prems(2) have mem: "(symbol, bb_item) \<in> set xs" by auto
    from Cons.IH[OF wf mem Cons.prems(3)] p
    show ?thesis by (simp add: Let_def)
  qed
qed

lemma build_record_ticker_fields:
  "dict_get (build_record cg_item base_coin bb_item) ''currentPrice''
     = Some (py_get bb_item ''lastPrice'')"
  "dict_get (build_record cg_item base_coin bb_item) ''priceChange24hPcnt''
     = Some (py_get bb_item ''price24hPcnt'')"
  "dict_get (build_record cg_item base_coin bb_item) ''volume24h''
     = Some (py_get bb_item ''volume24h'')"
  by (simp_all add: build_record_def dict_get_def)

lemma build_record_miss:
  "dict_get (build_record None base_coin bb_item) ''coinName'' = Some (PyStr base_coin)"
  "dict_get (build_record None base_coin bb_item) ''coinLogoURL'' = Some PyNone"
  "dict_get (build_record None base_coin bb_item) ''marketCapUSD'' = Some PyNone"
  "dict_get (build_record None base_coin bb_item) ''marketCapRank'' = Some PyNone"
  by (simp_all add: build_record_def dict_get_def if_item_def)

lemma dict_get_Nil: "dict_get [] k = None"
  by (simp add: dict_get_def)

lemma dict_get_Cons: "dict_get ((k', v) # d) k = (if k' = k then Some v else dict_get d k)"
  by (simp add: dict_get_def)

lemma set_if_absent: "set_if None k params = params" "set_if (Some 0) k params = params"
  by (simp_all add: set_if_def)

lemma dict_get_set_if_other:
  "k' \<noteq> k \<Longrightarrow> dict_get (set_if x k params) k' = dict_get params k'"
  by (simp add: set_if_def dict_get_dict_set split: option.split)

lemma dict_get_set_if_nonzero:
  "n \<noteq> 0 \<Longrightarrow> dict_get (set_if (Some n) k params) k = Some (PyInt n)"
  by (simp add: set_if_def dict_get_dict_set)

section \<open>Facts about the request handlers\<close>

lemma gather_fetches_eq:
  "gather_fetches up w =
     ((coingecko_result up, bybit_result up),
      w\<lparr>w_calls := w_calls w @ [CoinGeckoMarkets, BybitTickers],
        w_clock := w_clock w + fetch_duration up\<rparr>)"
  by (simp add: gather_fetches_def fetch_coingecko_data_def fetch_bybit_spot_tickers_def)


lemma handler_refresh_ok:
  assumes "\<not> cache_check (w_clock w) (w_cache w)"
    and "aggregate_data (coingecko_result up) (bybit_result up) \<noteq> []"
  shows "get_cached_aggregated_investment_data up w =
     (Inr (aggregate_data (coingecko_result up) (bybit_result up)),
      \<lparr>w_cache = \<lparr>last_updated = w_clock w,
                  data = aggregate_data (coingecko_result up) (bybit_result up)\<rparr>,
       w_clock = w_clock w + fetch_duration up,
       w_calls = w_calls w @ [CoinGeckoMarkets, BybitTickers]\<rparr>)"
  using assms
  by (cases w, cases "w_cache w")
     (simp add: get_cached_aggregated_investment_data_def gather_fetches_eq Let_def)

lemma handler_refresh_failed:
  assumes "\<not> cache_check (w_clock w) (w_cache w)"
    and "aggregate_data (coingecko_result up) (bybit_result up) = []"
  shows "get_cached_aggregated_investment_data up w =
     (if data (w_cache w) \<noteq> [] then Inr (data (w_cache w))
      else Inl (HTTPException 503
                  ''Could not fetch data from external APIs and cache is empty.''),
      w\<lparr>w_calls := w_calls w @ [CoinGeckoMarkets, BybitTickers],
        w_clock := w_clock w + fetch_duration up\<rparr>)"
  using assms
  by (simp add: get_cached_aggregated_investment_data_def gather_fetches_eq Let_def)

lemma aggregate_one_pair: "aggregate_data [] [(''BTCUSDT'', [])] \<noteq> []"
  by (simp add: aggregate_data_def endswith_def Let_def)

section \<open>Properties of the aggregator\<close>

text \<open>
  Claim C4. Whatever the two input mappings are, the keys of the aggregator's output are
  exactly the keys of the ticker mapping that end with the quote suffix \<^verbatim>\<open>USDT\<close>. So
  the output has no key that the ticker mapping lacks, and an empty ticker mapping gives
  an empty output, whatever the market-cap mapping holds.
\<close>

theorem aggregate_data_keys:
  "set (keys (aggregate_data coingecko_data bybit_data)) =
     {k \<in> set (keys bybit_data). endswith k ''USDT''}
   \<and> set (keys (aggregate_data coingecko_data bybit_data)) \<subseteq> set (keys bybit_data)
   \<and> aggregate_data coingecko_data [] = []"
proof -
  have eq: "set (keys (aggregate_data coingecko_data bybit_data)) =
              {k \<in> set (keys bybit_data). endswith k ''USDT''}"
    unfolding aggregate_data_def keys_aggregate_loop
    by (simp add: keys_def)
  have sub: "set (keys (aggregate_data coingecko_data bybit_data)) \<subseteq> set (keys bybit_data)"
    unfolding eq by (rule Collect_restrict)
  have emp: "aggregate_data coingecko_data [] = []"
    by (simp add: aggregate_data_def)
  from eq sub emp show ?thesis by (intro conjI)
qed

text \<open>
  The statement of C4 at a ticker mapping of three pairs, one of them not a
  \<^verbatim>\<open>USDT\<close> pair.
\<close>

theorem aggregate_data_keys_witness:
  "set (keys (aggregate_data
          [(''ETH'', [(''coinName'', PyStr ''Ethereum'')])]
          [(''BTCUSDT'', []), (''ETHBTC'', []), (''ETHUSDT'', [])]))
     = {''BTCUSDT'', ''ETHUSDT''}"
proof -
  have sel: "{k \<in> set (keys [(''BTCUSDT'', []), (''ETHBTC'', []), (''ETHUSDT'', [] :: pyval dict)]).
           endswith k ''USDT''} = {''BTCUSDT'', ''ETHUSDT''}"
    by (auto simp: keys_def endswith_def)
  from aggregate_data_keys[of "[(''ETH'', [(''coinName'', PyStr ''Ethereum'')])]"
         "[(''BTCUSDT'', []), (''ETHBTC'', []), (''ETHUSDT'', [])]"]
  have "set (keys (aggregate_data
          [(''ETH'', [(''coinName'', PyStr ''Ethereum'')])]
          [(''BTCUSDT'', []), (''ETHBTC'', []), (''ETHUSDT'', [])]))
     = {k \<in> set (keys [(''BTCUSDT'', []), (''ETHBTC'', []), (''ETHUSDT'', [] :: pyval dict)]).
           endswith k ''USDT''}"
    by (rule conjunct1)
  then show ?thesis unfolding sel .
qed

text \<open>
  Claim C5 fails on the code. \<open>strip_quote_suffix\<close> is what the claim describes;
  the code calls \<^verbatim>\<open>symbol.replace('USDT', '')\<close>, which removes every occurrence. The two
  agree on \<^verbatim>\<open>BTCUSDT\<close>, as on every symbol of \<open>replace_is_strip\<close>. On the retained symbol \<^verbatim>\<open>USDTBTCUSDT\<close> the claim gives the
  base symbol \<^verbatim>\<open>USDTBTC\<close> and the code gives \<^verbatim>\<open>BTC\<close>, so the record of that pair gets
  the name, logo, market cap and rank of Bitcoin.
\<close>

theorem base_coin_replaces_every_occurrence:
  "str_replace ''BTCUSDT'' ''USDT'' '''' = strip_quote_suffix ''BTCUSDT''
   \<and> endswith ''USDTBTCUSDT'' ''USDT''
   \<and> strip_quote_suffix ''USDTBTCUSDT'' = ''USDTBTC''
   \<and> str_replace ''USDTBTCUSDT'' ''USDT'' '''' = ''BTC''
   \<and> aggregate_data
         [(''BTC'', [(''marketCapUSD'', PyInt 900000000000), (''marketCapRank'', PyInt 1),
                     (''coinName'', PyStr ''Bitcoin''), (''coinLogoURL'', PyStr ''url'')])]
         [(''USDTBTCUSDT'', [(''lastPrice'', PyStr ''2'')])]
     = [(''USDTBTCUSDT'',
         [(''coinName'', PyStr ''Bitcoin''), (''currentPrice'', PyStr ''2''),
          (''priceChange24hPcnt'', PyNone), (''volume24h'', PyNone),
          (''coinLogoURL'', PyStr ''url''), (''marketCapUSD'', PyInt 900000000000),
          (''marketCapRank'', PyInt 1)])]"
proof -
  have agree: "str_replace ''BTCUSDT'' ''USDT'' '''' = strip_quote_suffix ''BTCUSDT''"
    by (simp add: str_replace_def strip_quote_suffix_def)
  have kept: "endswith ''USDTBTCUSDT'' ''USDT''"
    by (simp add: endswith_def)
  have claimed: "strip_quote_suffix ''USDTBTCUSDT'' = ''USDTBTC''"
    by (simp add: strip_quote_suffix_def)
  have code: "str_replace ''USDTBTCUSDT'' ''USDT'' '''' = ''BTC''"
    by (simp add: str_replace_def)
  have out: "aggregate_data
         [(''BTC'', [(''marketCapUSD'', PyInt 900000000000), (''marketCapRank'', PyInt 1),
                     (''coinName'', PyStr ''Bitcoin''), (''coinLogoURL'', PyStr ''url'')])]
         [(''USDTBTCUSDT'', [(''lastPrice'', PyStr ''2'')])]
     = [(''USDTBTCUSDT'',
         [(''coinName'', PyStr ''Bitcoin''), (''currentPrice'', PyStr ''2''),
          (''priceChange24hPcnt'', PyNone), (''volume24h'', PyNone),
          (''coinLogoURL'', PyStr ''url''), (''marketCapUSD'', PyInt 900000000000),
          (''marketCapRank'', PyInt 1)])]"
    by (simp add: aggregate_data_def kept code Let_def dict_get_def build_record_def
          if_item_def py_get_def py_get_default_def)
  from agree kept claimed code out show ?thesis by (intro conjI)
qed

text \<open>
  Claim C6. Take a ticker mapping with distinct keys and one of its entries whose symbol
  ends with \<^verbatim>\<open>USDT\<close>. The output has a record for that symbol. Its price, 24h change
  and volume are what \<^verbatim>\<open>.get\<close> reads from the ticker entry, whatever the market-cap
  mapping holds. When the base symbol the aggregator derives is not a key of the
  market-cap mapping, the display name is that base symbol and the logo URL, the
  market cap and the rank are \<^verbatim>\<open>None\<close>.
\<close>

theorem aggregate_data_record:
  assumes "wf_dict bybit_data"
    and "(symbol, bb_item) \<in> set bybit_data"
    and "endswith symbol ''USDT''"
  shows "\<exists>r. dict_get (aggregate_data coingecko_data bybit_data) symbol = Some r
     \<and> dict_get r ''currentPrice'' = Some (py_get bb_item ''lastPrice'')
     \<and> dict_get r ''priceChange24hPcnt'' = Some (py_get bb_item ''price24hPcnt'')
     \<and> dict_get r ''volume24h'' = Some (py_get bb_item ''volume24h'')
     \<and> (dict_get coingecko_data (str_replace symbol ''USDT'' '''') = None \<longrightarrow>
          dict_get r ''coinName'' = Some (PyStr (str_replace symbol ''USDT'' ''''))
          \<and> dict_get r ''coinLogoURL'' = Some PyNone
          \<and> dict_get r ''marketCapUSD'' = Some PyNone
          \<and> dict_get r ''marketCapRank'' = Some PyNone)"
proof -
  define base_coin where "base_coin = str_replace symbol ''USDT'' ''''"
  define r where "r = build_record (dict_get coingecko_data base_coin) base_coin bb_item"
  have stored: "dict_get (aggregate_data coingecko_data bybit_data) symbol = Some r"
    unfolding aggregate_data_def r_def base_coin_def
    by (rule aggregate_loop_entry[OF assms])
  have price: "dict_get r ''currentPrice'' = Some (py_get bb_item ''lastPrice'')"
    unfolding r_def by (rule build_record_ticker_fields)
  have change: "dict_get r ''priceChange24hPcnt'' = Some (py_get bb_item ''price24hPcnt'')"
    unfolding r_def by (rule build_record_ticker_fields)
  have volume: "dict_get r ''volume24h'' = Some (py_get bb_item ''volume24h'')"
    unfolding r_def by (rule build_record_ticker_fields)
  have miss: "dict_get coingecko_data base_coin = None \<longrightarrow>
          dict_get r ''coinName'' = Some (PyStr base_coin)
          \<and> dict_get r ''coinLogoURL'' = Some PyNone
          \<and> dict_get r ''marketCapUSD'' = Some PyNone
          \<and> dict_get r ''marketCapRank'' = Some PyNone"
    unfolding r_def by (simp add: build_record_miss)
  show ?thesis
    unfolding base_coin_def[symmetric]
    using stored price change volume miss
    by - (rule exI[of _ r], simp)
qed

text \<open>
  The statement of C6 at the pair \<^verbatim>\<open>BTCUSDT\<close> with an empty market-cap mapping.
\<close>

theorem aggregate_data_record_witness:
  "\<exists>r. dict_get (aggregate_data [] [(''BTCUSDT'', [(''lastPrice'', PyStr ''50000'')])])
            ''BTCUSDT'' = Some r
     \<and> dict_get r ''currentPrice'' = Some (PyStr ''50000'')
     \<and> dict_get r ''volume24h'' = Some PyNone
     \<and> dict_get r ''coinName'' = Some (PyStr ''BTC'')
     \<and> dict_get r ''marketCapRank'' = Some PyNone"
proof -
  have wf: "wf_dict [(''BTCUSDT'', [(''lastPrice'', PyStr ''50000'')])]"
    by (simp add: wf_dict_def keys_def)
  have mem: "(''BTCUSDT'', [(''lastPrice'', PyStr ''50000'')])
               \<in> set [(''BTCUSDT'', [(''lastPrice'', PyStr ''50000'')])]"
    by simp
  have suffix: "endswith ''BTCUSDT'' ''USDT''"
    by (simp add: endswith_def)
  have base: "str_replace ''BTCUSDT'' ''USDT'' '''' = ''BTC''"
    by (simp add: str_replace_def)
  have price: "py_get [(''lastPrice'', PyStr ''50000'')] ''lastPrice'' = PyStr ''50000''"
    by (simp add: py_get_def py_get_default_def)
  have volume: "py_get [(''lastPrice'', PyStr ''50000'')] ''volume24h'' = PyNone"
    by (simp add: py_get_def py_get_default_def)
  have absent: "dict_get ([] :: pyval dict dict) ''BTC'' = None"
    by (simp add: dict_get_def)
  from aggregate_data_record[OF wf mem suffix, of "[]"]
  obtain r where r:
    "dict_get (aggregate_data [] [(''BTCUSDT'', [(''lastPrice'', PyStr ''50000'')])])
       ''BTCUSDT'' = Some r"
    "dict_get r ''currentPrice'' = Some (PyStr ''50000'')"
    "dict_get r ''volume24h'' = Some PyNone"
    "dict_get r ''coinName'' = Some (PyStr ''BTC'')"
    "dict_get r ''marketCapRank'' = Some PyNone"
    unfolding base price volume using absent by auto
  show ?thesis
    by (rule exI[of _ r]) (simp only: r simp_thms)
qed

section \<open>Properties of the aggregated-data endpoint\<close>



text \<open>
  Claim C1. When the cache check fails (the refresh path runs), the aggregation of the
  two fetched mappings is empty and the cache holds a non-empty mapping, the handler
  returns that mapping, raises nothing, and leaves the cached mapping and its timestamp
  as they were. The two upstream calls have been made.
\<close>

theorem refresh_failed_with_fallback:
  assumes "\<not> cache_check (w_clock w) (w_cache w)"
    and "aggregate_data (coingecko_result up) (bybit_result up) = []"
    and "data (w_cache w) \<noteq> []"
  shows "fst (get_cached_aggregated_investment_data up w) = Inr (data (w_cache w))
     \<and> w_cache (snd (get_cached_aggregated_investment_data up w)) = w_cache w
     \<and> w_calls (snd (get_cached_aggregated_investment_data up w))
         = w_calls w @ [CoinGeckoMarkets, BybitTickers]"
  using assms(3) by (simp add: handler_refresh_failed[OF assms(1,2)])

text \<open>
  The statement of C1 at a cache filled at time 1000, a request at time 2000 and two
  upstream services that return nothing.
\<close>

theorem refresh_failed_with_fallback_witness:
  "fst (get_cached_aggregated_investment_data
          \<lparr>coingecko_result = [], bybit_result = [], fetch_duration = 1\<rparr>
          \<lparr>w_cache = \<lparr>last_updated = 1000, data = [(''BTCUSDT'', [])]\<rparr>,
           w_clock = 2000, w_calls = []\<rparr>)
     = Inr [(''BTCUSDT'', [])]
   \<and> w_cache (snd (get_cached_aggregated_investment_data
          \<lparr>coingecko_result = [], bybit_result = [], fetch_duration = 1\<rparr>
          \<lparr>w_cache = \<lparr>last_updated = 1000, data = [(''BTCUSDT'', [])]\<rparr>,
           w_clock = 2000, w_calls = []\<rparr>))
     = \<lparr>last_updated = 1000, data = [(''BTCUSDT'', [])]\<rparr>"
  using refresh_failed_with_fallback[of
     "\<lparr>w_cache = \<lparr>last_updated = 1000, data = [(''BTCUSDT'', [])]\<rparr>,
       w_clock = 2000, w_calls = []\<rparr>"
     "\<lparr>coingecko_result = [], bybit_result = [], fetch_duration = 1\<rparr>"]
  by (simp add: cache_check_def CACHE_DURATION_SECONDS_def aggregate_data_def)

text \<open>
  Claim C3. When the cached mapping is empty (so the cache check fails and the refresh
  path runs) and the aggregation of the two fetched mappings is empty, the handler
  raises the \<^verbatim>\<open>HTTPException\<close> with status 503 and the cache stays as it was: empty
  mapping, timestamp unchanged.
\<close>

theorem refresh_failed_no_data:
  assumes "data (w_cache w) = []"
    and "aggregate_data (coingecko_result up) (bybit_result up) = []"
  shows "\<not> cache_check (w_clock w) (w_cache w)
     \<and> fst (get_cached_aggregated_investment_data up w)
         = Inl (HTTPException 503
                  ''Could not fetch data from external APIs and cache is empty.'')
     \<and> w_cache (snd (get_cached_aggregated_investment_data up w)) = w_cache w
     \<and> data (w_cache (snd (get_cached_aggregated_investment_data up w))) = []"
proof -
  from assms(1) have miss: "\<not> cache_check (w_clock w) (w_cache w)"
    by (simp add: cache_check_def)
  from assms(1) show ?thesis
    by (simp add: miss handler_refresh_failed[OF miss assms(2)])
qed

text \<open>
  The statement of C3 at the cache of process start and two upstream services that
  return nothing.
\<close>

theorem refresh_failed_no_data_witness:
  "fst (get_cached_aggregated_investment_data
          \<lparr>coingecko_result = [], bybit_result = [], fetch_duration = 1\<rparr>
          \<lparr>w_cache = data_cache, w_clock = 2000, w_calls = []\<rparr>)
     = Inl (HTTPException 503
              ''Could not fetch data from external APIs and cache is empty.'')
   \<and> w_cache (snd (get_cached_aggregated_investment_data
          \<lparr>coingecko_result = [], bybit_result = [], fetch_duration = 1\<rparr>
          \<lparr>w_cache = data_cache, w_clock = 2000, w_calls = []\<rparr>))
     = data_cache"
  using refresh_failed_no_data[of
     "\<lparr>w_cache = data_cache, w_clock = 2000, w_calls = []\<rparr>"
     "\<lparr>coingecko_result = [], bybit_result = [], fetch_duration = 1\<rparr>"]
  by (simp add: data_cache_def aggregate_data_def)

text \<open>
  Claim C7, as the code has it. When the cache check fails and the aggregation of the two
  fetched mappings is not empty, the handler returns the new mapping and stores it
  together with \<open>current_time\<close>, the clock reading taken at entry, before the two
  fetches were awaited. The write itself happens after them, \<open>fetch_duration\<close> later.
\<close>

theorem refresh_ok:
  assumes "\<not> cache_check (w_clock w) (w_cache w)"
    and "aggregate_data (coingecko_result up) (bybit_result up) \<noteq> []"
  shows "fst (get_cached_aggregated_investment_data up w)
         = Inr (aggregate_data (coingecko_result up) (bybit_result up))
     \<and> w_cache (snd (get_cached_aggregated_investment_data up w))
         = \<lparr>last_updated = w_clock w,
            data = aggregate_data (coingecko_result up) (bybit_result up)\<rparr>
     \<and> w_clock (snd (get_cached_aggregated_investment_data up w))
         = w_clock w + fetch_duration up"
  by (simp add: handler_refresh_ok[OF assms])

text \<open>
  The statement above at the cache of process start, a request entering at time 1000 and
  fetches that take 3 seconds.
\<close>

theorem refresh_ok_witness:
  "w_cache (snd (get_cached_aggregated_investment_data
          \<lparr>coingecko_result = [], bybit_result = [(''BTCUSDT'', [])], fetch_duration = 3\<rparr>
          \<lparr>w_cache = data_cache, w_clock = 1000, w_calls = []\<rparr>))
     = \<lparr>last_updated = 1000, data = aggregate_data [] [(''BTCUSDT'', [])]\<rparr>"
  using refresh_ok[of
     "\<lparr>w_cache = data_cache, w_clock = 1000, w_calls = []\<rparr>"
     "\<lparr>coingecko_result = [], bybit_result = [(''BTCUSDT'', [])], fetch_duration = 3\<rparr>"]
  by (simp add: cache_check_def data_cache_def aggregate_one_pair)

text \<open>
  Claim C7, as stated, fails: the stored timestamp is not the time of the write. A request
  enters at time 1000 with the cache of process start; the fetches take 3 seconds and give
  one \<^verbatim>\<open>USDT\<close> pair. The refresh path runs, the aggregation is not empty, the cache is
  written when the clock reads 1003, and the timestamp stored is 1000.
\<close>

theorem refresh_timestamp_counterexample:
  "\<not> cache_check 1000 data_cache
   \<and> aggregate_data [] [(''BTCUSDT'', [])] \<noteq> []
   \<and> last_updated (w_cache (snd (get_cached_aggregated_investment_data
          \<lparr>coingecko_result = [], bybit_result = [(''BTCUSDT'', [])], fetch_duration = 3\<rparr>
          \<lparr>w_cache = data_cache, w_clock = 1000, w_calls = []\<rparr>))) = 1000
   \<and> w_clock (snd (get_cached_aggregated_investment_data
          \<lparr>coingecko_result = [], bybit_result = [(''BTCUSDT'', [])], fetch_duration = 3\<rparr>
          \<lparr>w_cache = data_cache, w_clock = 1000, w_calls = []\<rparr>)) = 1003"
proof -
  have miss: "\<not> cache_check 1000 data_cache"
    by (simp add: cache_check_def data_cache_def)
  have some: "aggregate_data [] [(''BTCUSDT'', [])] \<noteq> []"
    by (rule aggregate_one_pair)
  have run: "get_cached_aggregated_investment_data
          \<lparr>coingecko_result = [], bybit_result = [(''BTCUSDT'', [])], fetch_duration = 3\<rparr>
          \<lparr>w_cache = data_cache, w_clock = 1000, w_calls = []\<rparr>
      = (Inr (aggregate_data [] [(''BTCUSDT'', [])]),
         \<lparr>w_cache = \<lparr>last_updated = 1000, data = aggregate_data [] [(''BTCUSDT'', [])]\<rparr>,
          w_clock = 1003, w_calls = [CoinGeckoMarkets, BybitTickers]\<rparr>)"
    using handler_refresh_ok[of
       "\<lparr>w_cache = data_cache, w_clock = 1000, w_calls = []\<rparr>"
       "\<lparr>coingecko_result = [], bybit_result = [(''BTCUSDT'', [])], fetch_duration = 3\<rparr>"]
      miss some
    by simp
  show ?thesis unfolding run using miss some by simp
qed



section \<open>Properties of the klines endpoint\<close>



text \<open>
  Claim C10. A start time of 0 gives the same query parameters as no start time, with no
  \<^verbatim>\<open>start\<close> key among them, and the same holds for the end time and the \<^verbatim>\<open>end\<close> key.
  So the fetcher makes the same call and returns the same result for a bound of 0 as for
  an absent bound.
\<close>

theorem zero_bound_omitted:
  "kline_params symbol interval (Some 0) end_time limit
     = kline_params symbol interval None end_time limit
   \<and> kline_params symbol interval start_time (Some 0) limit
     = kline_params symbol interval start_time None limit
   \<and> dict_get (kline_params symbol interval (Some 0) end_time limit) ''start'' = None
   \<and> dict_get (kline_params symbol interval start_time (Some 0) limit) ''end'' = None
   \<and> fetch_bybit_klines kline_result symbol interval (Some 0) end_time limit w
     = fetch_bybit_klines kline_result symbol interval None end_time limit w
   \<and> fetch_bybit_klines kline_result symbol interval start_time (Some 0) limit w
     = fetch_bybit_klines kline_result symbol interval start_time None limit w"
proof -
  have s: "kline_params symbol interval (Some 0) end_time limit
     = kline_params symbol interval None end_time limit"
    by (simp add: kline_params_def set_if_absent)
  have e: "kline_params symbol interval start_time (Some 0) limit
     = kline_params symbol interval start_time None limit"
    by (simp add: kline_params_def set_if_absent)
  have ks: "dict_get (kline_params symbol interval (Some 0) end_time limit) ''start'' = None"
    by (simp add: kline_params_def Let_def set_if_absent dict_get_set_if_other
          dict_get_Cons dict_get_Nil)
  have ke: "dict_get (kline_params symbol interval start_time (Some 0) limit) ''end'' = None"
    by (simp add: kline_params_def Let_def set_if_absent dict_get_set_if_other
          dict_get_Cons dict_get_Nil)
  have fs: "fetch_bybit_klines kline_result symbol interval (Some 0) end_time limit w
     = fetch_bybit_klines kline_result symbol interval None end_time limit w"
    by (simp add: fetch_bybit_klines_def s)
  have fe: "fetch_bybit_klines kline_result symbol interval start_time (Some 0) limit w
     = fetch_bybit_klines kline_result symbol interval start_time None limit w"
    by (simp add: fetch_bybit_klines_def e)
  from s e ks ke fs fe show ?thesis by (intro conjI)
qed

text \<open>
  The statement of C10 at a request for \<^verbatim>\<open>BTCUSDT\<close> candles with start time 0: the
  parameters sent are the four fixed ones.
\<close>

theorem zero_bound_omitted_witness:
  "kline_params ''BTCUSDT'' ''60'' (Some 0) None 1000
     = [(''category'', PyStr ''spot''), (''symbol'', PyStr ''BTCUSDT''),
        (''interval'', PyStr ''60''), (''limit'', PyInt 1000)]"
proof -
  from zero_bound_omitted[of "''BTCUSDT''" "''60''" None 1000]
  have "kline_params ''BTCUSDT'' ''60'' (Some 0) None 1000
          = kline_params ''BTCUSDT'' ''60'' None None 1000"
    by (rule conjunct1)
  then show ?thesis
    by (simp add: kline_params_def set_if_absent)
qed

text \<open>A bound other than 0 is sent.\<close>

lemma nonzero_bound_sent:
  "n \<noteq> 0 \<Longrightarrow>
     dict_get (kline_params symbol interval (Some n) end_time limit) ''start''
       = Some (PyInt n)"
  "n \<noteq> 0 \<Longrightarrow>
     dict_get (kline_params symbol interval start_time (Some n) limit) ''end''
       = Some (PyInt n)"
  by (simp_all add: kline_params_def Let_def dict_get_set_if_other dict_get_set_if_nonzero)

end
